theory Spec2Isabelle
  imports Complex_Main "HOL-Library.Product_Lexorder"
begin

section \<open>Data model\<close>

text \<open>
  The development embeds \<^verbatim>\<open>beam_piston_theory_flutter.cpp\<close>: the analysis driver
  \<^verbatim>\<open>MAST::BeamPistonTheoryFlutterAnalysis\<close> with its operations \<^verbatim>\<open>init\<close>,
  \<^verbatim>\<open>get_parameter\<close>, \<^verbatim>\<open>solve\<close> and \<^verbatim>\<open>sensitivity_solve\<close>.
  \<^verbatim>\<open>Real\<close> is modelled by the exact reals, \<^verbatim>\<open>unsigned int\<close> counters by naturals
  (no counter of the driver can overflow: each is bounded by a vector size or by the
  iteration cap). A failed \<^verbatim>\<open>libmesh_assert\<close> and a null dereference are error values.
\<close>

datatype error =
    AssertionFailed
  | NullDereference
  | StaleRootError

text \<open>
  A \<^verbatim>\<open>MAST::Parameter*\<close> is an address; the Parameter objects live in a heap. Address 0
  holds no object of the analysis (its pointer members are indeterminate before \<^verbatim>\<open>init\<close>).
\<close>

type_synonym pref = nat

record parameter =
  param_name :: string
  param_value :: real

type_synonym heap = "pref \<Rightarrow> parameter"

text \<open>\<^verbatim>\<open>(*p) = x\<close>: assignment to the scalar a Parameter holds.\<close>

definition set_value :: "pref \<Rightarrow> real \<Rightarrow> heap \<Rightarrow> heap" where
  "set_value p x h = h(p := (h p)\<lparr>param_value := x\<rparr>)"

text \<open>\<^verbatim>\<open>new MAST::Parameter(nm, x)\<close> placed at address \<open>p\<close>.\<close>

definition new_parameter :: "pref \<Rightarrow> string \<Rightarrow> real \<Rightarrow> heap \<Rightarrow> heap" where
  "new_parameter p nm x h = h(p := \<lparr>param_name = nm, param_value = x\<rparr>)"

text \<open>What is streamed to \<^verbatim>\<open>libMesh::out\<close>: strings, reals and \<^verbatim>\<open>std::endl\<close>.\<close>

datatype out_item = Str string | Num real | Endl

type_synonym vec = "real list"
type_synonym cvec = "complex list"
type_synonym cmat = "complex list list"

text \<open>A \<^verbatim>\<open>MAST::ConstantFieldFunction(nm, p)\<close>: a named function reading one Parameter.\<close>

type_synonym field_function = "string \<times> pref"

text \<open>
  \<^verbatim>\<open>MAST::FlutterRootBase\<close>, with the members the driver reads: \<^verbatim>\<open>V\<close>,
  \<^verbatim>\<open>eig_vec_right\<close>, \<^verbatim>\<open>V_sens\<close>, and the eigenvalue and left eigenvector of the
  specification's FlutterRoot.
\<close>

record flutter_root =
  fr_V :: real
  fr_root :: complex
  fr_eig_vec_right :: cvec
  fr_eig_vec_left :: cvec
  fr_V_sens :: real

text \<open>
  The \<^verbatim>\<open>MAST::TimeDomainFlutterSolver\<close> object. The roots it computes are owned by its
  RootHistory; a \<^verbatim>\<open>MAST::FlutterRootBase*\<close> is a position in that history.
\<close>

type_synonym rootptr = nat

record flutter_solver =
  fs_velocity :: pref
  fs_V_lo :: real
  fs_V_hi :: real
  fs_n_div :: nat
  fs_basis :: "vec list"
  fs_history :: "flutter_root list"
  fs_root :: "rootptr option"
  fs_assembly :: bool
  fs_output_file :: "string option"
  fs_output :: "(real \<times> real \<times> real) list"

text \<open>
  The \<^verbatim>\<open>MAST::StructuralDiscipline\<close> object as the driver configures it: Dirichlet
  conditions per boundary, the field functions of the section and material cards, the
  field functions of the piston-theory load, and the parameters registered for
  sensitivity analysis.
\<close>

record discipline =
  d_dirichlet_bc :: "(nat \<times> nat list) list"
  d_property :: "field_function list"
  d_volume_load :: "field_function list"
  d_parameters :: "pref set"

text \<open>
  The members of \<^verbatim>\<open>MAST::BeamPistonTheoryFlutterAnalysis\<close>. The members \<^verbatim>\<open>_thy\<close>,
  \<^verbatim>\<open>_thz\<close>, ... are written \<open>p_thy\<close>, \<open>p_thz\<close>, ...; the mesh and the libMesh
  system are external and appear only through the collaborators below.
\<close>

record analysis =
  initialized :: bool
  flutter_root :: "rootptr option"
  heap :: heap
  length_of_domain :: real
  p_thy :: pref
  p_thz :: pref
  p_rho :: pref
  p_E :: pref
  p_nu :: pref
  p_zero :: pref
  p_velocity :: pref
  p_mach :: pref
  p_rho_air :: pref
  p_gamma_air :: pref
  params_for_sensitivity :: "pref list"
  discipline :: discipline
  n_requested_eigenvalues :: nat
  basis :: "vec list"
  flutter_solver :: flutter_solver
  out :: "out_item list"
  written :: "(string \<times> nat) list"

text \<open>
  The external collaborators (mesh, finite-element assembly, eigen-solver backend, MPI),
  as parameters of the model:
  \<^item> \<open>comm_rank\<close>: \<^verbatim>\<open>__init->comm().rank()\<close>;
  \<^item> \<open>modal_eigenpairs\<close>: the converged eigenpairs (real part, imaginary part, vector)
    that \<^verbatim>\<open>_sys->eigenproblem_solve()\<close> leaves for \<^verbatim>\<open>get_eigenpair\<close>, for the
    discipline and the parameter values of the moment;
  \<^item> \<open>reduced_operators\<close>: the pair \<open>(A, B)\<close> projected on a basis, for given
    parameter values (the velocity among them);
  \<^item> \<open>reduced_sensitivity\<close>: the pair \<open>(dA/dp, dB/dp)\<close> for a parameter \<open>p\<close>;
  \<^item> \<open>tracked_eigenpair\<close>: the generalized eigen-solve followed by the identification
    of the tracked mode: its eigenvalue, right and left eigenvector.
\<close>

record env =
  comm_rank :: nat
  modal_eigenpairs :: "discipline \<Rightarrow> heap \<Rightarrow> (real \<times> real \<times> vec) list"
  reduced_operators :: "vec list \<Rightarrow> discipline \<Rightarrow> heap \<Rightarrow> cmat \<times> cmat"
  reduced_sensitivity :: "vec list \<Rightarrow> discipline \<Rightarrow> heap \<Rightarrow> pref \<Rightarrow> cmat \<times> cmat"
  tracked_eigenpair :: "cmat \<times> cmat \<Rightarrow> complex \<times> cvec \<times> cvec"

section \<open>Construction and initialisation\<close>

text \<open>
  The constructor sets \<^verbatim>\<open>_initialized(false)\<close> and \<^verbatim>\<open>_flutter_root(nullptr)\<close>; the
  vectors start empty.
\<close>

definition BeamPistonTheoryFlutterAnalysis :: analysis where
  "BeamPistonTheoryFlutterAnalysis =
     \<lparr> initialized = False,
       flutter_root = None,
       heap = (\<lambda>_. \<lparr>param_name = [], param_value = 0\<rparr>),
       length_of_domain = 0,
       p_thy = 0, p_thz = 0, p_rho = 0, p_E = 0, p_nu = 0, p_zero = 0,
       p_velocity = 0, p_mach = 0, p_rho_air = 0, p_gamma_air = 0,
       params_for_sensitivity = [],
       discipline = \<lparr> d_dirichlet_bc = [], d_property = [], d_volume_load = [],
                      d_parameters = {} \<rparr>,
       n_requested_eigenvalues = 0,
       basis = [],
       flutter_solver = \<lparr> fs_velocity = 0, fs_V_lo = 0, fs_V_hi = 0, fs_n_div = 0,
                          fs_basis = [], fs_history = [], fs_root = None,
                          fs_assembly = False, fs_output_file = None, fs_output = [] \<rparr>,
       out = [],
       written = [] \<rparr>"

text \<open>
  \<^verbatim>\<open>init(etype, if_nonlin)\<close>, lines 58--190. The ten Parameter objects are allocated at
  the addresses 1 to 10 in the order of the \<^verbatim>\<open>new\<close> expressions; the sensitivity
  vector receives \<^verbatim>\<open>_E, _nu, _thy, _thz\<close>; a new discipline and a new flutter solver
  are created.
\<close>

definition init :: "nat \<Rightarrow> bool \<Rightarrow> analysis \<Rightarrow> error + analysis" where
  "init etype if_nonlin a =
     (if initialized a then Inl AssertionFailed
      else
        let h = new_parameter 10 ''gamma'' (14 / 10)
               (new_parameter 9 ''rho'' (105 / 100)
               (new_parameter 8 ''mach'' 3
               (new_parameter 7 ''V'' 0
               (new_parameter 6 ''zero'' 0
               (new_parameter 5 ''nu'' (33 / 100)
               (new_parameter 4 ''E'' 72000000000
               (new_parameter 3 ''rho'' 2800
               (new_parameter 2 ''thz'' 1
               (new_parameter 1 ''thy'' (6 / 100) (heap a))))))))))
        in Inr (a\<lparr> length_of_domain := 10,
                   heap := h,
                   p_thy := 1, p_thz := 2, p_rho := 3, p_E := 4, p_nu := 5, p_zero := 6,
                   p_velocity := 7, p_mach := 8, p_rho_air := 9, p_gamma_air := 10,
                   params_for_sensitivity := params_for_sensitivity a @ [4, 5, 1, 2],
                   discipline :=
                     \<lparr> d_dirichlet_bc = [(0, [0, 1, 2, 3]), (1, [0, 1, 2, 3])],
                       d_property = [(''rho'', 3), (''E'', 4), (''nu'', 5),
                                     (''hy'', 1), (''hz'', 2), (''hy_off'', 6), (''hz_off'', 6)],
                       d_volume_load = [(''V'', 7), (''mach'', 8), (''rho'', 9), (''gamma'', 10)],
                       d_parameters = {} \<rparr>,
                   n_requested_eigenvalues := 3,
                   flutter_solver :=
                     \<lparr> fs_velocity = 0, fs_V_lo = 0, fs_V_hi = 0, fs_n_div = 0,
                       fs_basis = [], fs_history = [], fs_root = None,
                       fs_assembly = False, fs_output_file = None, fs_output = [] \<rparr>,
                   initialized := True \<rparr>))"

section \<open>Lookup of a parameter by name\<close>

text \<open>
  The first loop of \<^verbatim>\<open>get_parameter\<close> (lines 266--272) runs over the whole vector and
  overwrites \<^verbatim>\<open>rval\<close> and \<^verbatim>\<open>found\<close> at every match.
\<close>

fun get_parameter_loop ::
  "heap \<Rightarrow> string \<Rightarrow> pref list \<Rightarrow> pref option \<times> bool \<Rightarrow> pref option \<times> bool" where
  "get_parameter_loop h nm [] rf = rf"
| "get_parameter_loop h nm (it # rest) rf =
     get_parameter_loop h nm rest
       (if nm = param_name (h it) then (Some it, True) else rf)"

text \<open>The second loop (lines 281--282) prints one line per parameter of the vector.\<close>

fun print_valid_names :: "heap \<Rightarrow> pref list \<Rightarrow> out_item list" where
  "print_valid_names h [] = []"
| "print_valid_names h (it # rest) =
     [Str ''   '', Str (param_name (h it)), Endl] @ print_valid_names h rest"

text \<open>
  \<^verbatim>\<open>get_parameter(nm)\<close>, lines 253--287: the pointer found last, or \<^verbatim>\<open>nullptr\<close>
  (\<open>None\<close>) after the diagnostic.
\<close>

definition get_parameter :: "string \<Rightarrow> analysis \<Rightarrow> analysis \<times> pref option" where
  "get_parameter nm a =
     (case get_parameter_loop (heap a) nm (params_for_sensitivity a) (None, False) of
        (rval, found) \<Rightarrow>
          if \<not> found
          then (a\<lparr> out := out a @
                      [Endl, Str ''Parameter not found by name: '', Str nm, Endl,
                       Str ''Valid names are: '', Endl]
                      @ print_valid_names (heap a) (params_for_sensitivity a)
                      @ [Endl] \<rparr>, rval)
          else (a, rval))"

section \<open>The flutter solver\<close>

text \<open>
  Modelled from the spec: the class \<^verbatim>\<open>MAST::TimeDomainFlutterSolver\<close>
  (\<^verbatim>\<open>aeroelasticity/time_domain_flutter_solver.h\<close>) and \<^verbatim>\<open>MAST::FlutterRootBase\<close>
  are not among the sources; only the driver's calls are. The definitions of this section
  follow sections 4.3, 4.4, 4.5 and 6 of the specification. The assembly of the operators,
  the eigen-solve and the identification of the tracked mode are the collaborators
  \<open>reduced_operators\<close> and \<open>tracked_eigenpair\<close>, taken to succeed: the failures
  AssemblyFailure, EigensolveFailure and BisectionDivergence of section 7 are outside the
  model.
\<close>

text \<open>
  Modelled from the spec: \<^verbatim>\<open>clear()\<close> "releases the RootHistory and invalidates the
  current FlutterRoot".
\<close>

definition clear :: "flutter_solver \<Rightarrow> flutter_solver" where
  "clear fs = fs\<lparr> fs_history := [], fs_root := None \<rparr>"

text \<open>Modelled from the spec: the plain-text log of sorted roots goes to the named file.\<close>

definition set_output_file :: "string \<Rightarrow> flutter_solver \<Rightarrow> flutter_solver" where
  "set_output_file nm fs = fs\<lparr> fs_output_file := Some nm \<rparr>"

text \<open>
  Modelled from the spec: \<^verbatim>\<open>attach_assembly\<close> and \<^verbatim>\<open>clear_assembly_object\<close> connect
  the solver to the operator assembler and disconnect it.
\<close>

definition attach_assembly :: "flutter_solver \<Rightarrow> flutter_solver" where
  "attach_assembly fs = fs\<lparr> fs_assembly := True \<rparr>"

definition clear_assembly_object :: "flutter_solver \<Rightarrow> flutter_solver" where
  "clear_assembly_object fs = fs\<lparr> fs_assembly := False \<rparr>"

text \<open>
  Modelled from the spec: \<^verbatim>\<open>initialize(V0, V_lo, V_hi, n_divisions, basis)\<close>
  "configures the search range and basis".
\<close>

definition initialize ::
  "pref \<Rightarrow> real \<Rightarrow> real \<Rightarrow> nat \<Rightarrow> vec list \<Rightarrow> flutter_solver \<Rightarrow> flutter_solver" where
  "initialize vel lo hi n bs fs =
     fs\<lparr> fs_velocity := vel, fs_V_lo := lo, fs_V_hi := hi, fs_n_div := n, fs_basis := bs \<rparr>"

text \<open>
  Modelled from the spec: one velocity sample. The reduced operators are built at the
  velocity \<open>v\<close>, the eigenproblem is solved and the tracked mode identified (sections
  4.1 to 4.3); the solver's evaluation is the function \<open>eig\<close> from a velocity to the
  tracked eigenvalue and its right and left eigenvectors.
\<close>

definition root_at :: "(real \<Rightarrow> complex \<times> cvec \<times> cvec) \<Rightarrow> real \<Rightarrow> flutter_root" where
  "root_at eig v =
     (case eig v of (lam, x, y) \<Rightarrow>
        \<lparr> fr_V = v, fr_root = lam, fr_eig_vec_right = x, fr_eig_vec_left = y,
          fr_V_sens = 0 \<rparr>)"

text \<open>The growth rate of the tracked mode at a velocity: the real part of its eigenvalue.\<close>

definition growth :: "(real \<Rightarrow> complex \<times> cvec \<times> cvec) \<Rightarrow> real \<Rightarrow> real" where
  "growth eig v = Re (fr_root (root_at eig v))"

text \<open>
  Modelled from the spec: the sweep samples the range "at \<open>n_divisions + 1\<close> evenly
  spaced points".
\<close>

definition sample_velocity :: "real \<Rightarrow> real \<Rightarrow> nat \<Rightarrow> nat \<Rightarrow> real" where
  "sample_velocity lo hi n k = lo + real k * (hi - lo) / real n"

definition sweep_velocities :: "real \<Rightarrow> real \<Rightarrow> nat \<Rightarrow> real list" where
  "sweep_velocities lo hi n = map (sample_velocity lo hi n) [0..<Suc n]"

text \<open>
  Modelled from the spec: a bracket is declared "when the tracked real part changes sign
  from non-positive to positive between the two samples"; "the first crossing (lowest
  \<open>V_k\<close>) is reported". The result is the position \<open>k\<close> of the lower sample.
\<close>

fun find_crossing :: "flutter_root list \<Rightarrow> nat option" where
  "find_crossing (r # s # rs) =
     (if Re (fr_root r) \<le> 0 \<and> 0 < Re (fr_root s) then Some 0
      else map_option Suc (find_crossing (s # rs)))"
| "find_crossing rs = None"

text \<open>
  The state of the refinement: the bracket, the root evaluated last and the number of
  iterations done.
\<close>

record bracket =
  b_lo :: real
  b_hi :: real
  b_root :: flutter_root
  b_iters :: nat

text \<open>
  Modelled from the spec: steps 1 to 4 of section 4.4. The midpoint is evaluated and
  replaces the low end when the real part there is \<open>\<le> 0\<close>, the high end when it is
  \<open>> 0\<close>.
\<close>

definition bisect_step :: "(real \<Rightarrow> complex \<times> cvec \<times> cvec) \<Rightarrow> bracket \<Rightarrow> bracket" where
  "bisect_step eig b =
     (let V_mid = (b_lo b + b_hi b) / 2;
          r = root_at eig V_mid
      in if Re (fr_root r) \<le> 0
         then b\<lparr> b_lo := V_mid, b_root := r, b_iters := Suc (b_iters b) \<rparr>
         else b\<lparr> b_hi := V_mid, b_root := r, b_iters := Suc (b_iters b) \<rparr>)"

text \<open>
  Modelled from the spec: step 5, "terminate when \<open>|real(\<lambda>)| < tol\<close> or
  \<open>V_hi - V_lo < tol * V_hi\<close>".
\<close>

definition bisect_done :: "real \<Rightarrow> bracket \<Rightarrow> bool" where
  "bisect_done tol b \<longleftrightarrow>
     \<bar>Re (fr_root (b_root b))\<bar> < tol \<or> b_hi b - b_lo b < tol * b_hi b"

text \<open>
  Modelled from the spec: the refinement loop. The first argument after the tolerance is
  the number of iterations still allowed, \<^verbatim>\<open>max_bisection_iters\<close> at the start ("a hard
  iteration cap"); when it is used up the result is flagged as not converged and "the
  best current estimate is still returned". The third component lists the bracket after
  every iteration done.
\<close>

fun bisection ::
  "(real \<Rightarrow> complex \<times> cvec \<times> cvec) \<Rightarrow> real \<Rightarrow> nat \<Rightarrow> bracket \<Rightarrow> bool \<times> bracket \<times> bracket list" where
  "bisection eig tol 0 b = (False, b, [])"
| "bisection eig tol (Suc n) b =
     (let b' = bisect_step eig b
      in if bisect_done tol b' then (True, b', [b'])
         else (case bisection eig tol n b' of (c, bf, tr) \<Rightarrow> (c, bf, b' # tr)))"

text \<open>
  Modelled from the spec: the bracket handed to the refinement, between the samples
  \<open>k\<close> and \<open>k + 1\<close> of the sweep; the root known at the start is the sample
  evaluated last, the high end.
\<close>

definition initial_bracket :: "flutter_root list \<Rightarrow> nat \<Rightarrow> bracket" where
  "initial_bracket roots k =
     \<lparr> b_lo = fr_V (roots ! k), b_hi = fr_V (roots ! Suc k),
       b_root = roots ! Suc k, b_iters = 0 \<rparr>"

text \<open>
  Modelled from the spec: \<^verbatim>\<open>find_critical_root(tol, max_bisection_iters)\<close>, called
  \<^verbatim>\<open>analyze_and_find_critical_root_without_tracking\<close> by the driver, which receives a
  \<^verbatim>\<open>std::pair<bool, MAST::FlutterRootBase*>\<close>. The sweep evaluates every sample and
  stores it in the RootHistory; without a crossing the result is \<open>(False, None)\<close>;
  otherwise the first bracket is refined, the midpoints are appended to the history and
  the result points to the root evaluated last.
\<close>

definition analyze_and_find_critical_root_without_tracking ::
  "(real \<Rightarrow> complex \<times> cvec \<times> cvec) \<Rightarrow> real \<Rightarrow> nat \<Rightarrow> flutter_solver
     \<Rightarrow> flutter_solver \<times> (bool \<times> rootptr option)" where
  "analyze_and_find_critical_root_without_tracking eig tol max_bisection_iters fs =
     (let roots = map (root_at eig) (sweep_velocities (fs_V_lo fs) (fs_V_hi fs) (fs_n_div fs));
          hist = fs_history fs @ roots
      in case find_crossing roots of
           None \<Rightarrow> (fs\<lparr> fs_history := hist, fs_root := None \<rparr>, (False, None))
         | Some k \<Rightarrow>
             (case bisection eig tol max_bisection_iters (initial_bracket roots k) of
                (converged, bf, tr) \<Rightarrow>
                  (let hist' = hist @ map b_root tr;
                       ptr = (if tr = [] then length (fs_history fs) + Suc k
                              else length hist' - 1)
                   in (fs\<lparr> fs_history := hist', fs_root := Some ptr \<rparr>,
                       (converged, Some ptr)))))"


text \<open>
  Modelled from the spec: the three results of the search named in section 7, read off
  the pair the driver receives: a converged root, a root flagged as not converged, and
  no crossing in the sampled range.
\<close>

datatype search_outcome = Converged | NotConverged | NoCrossingFound

fun outcome :: "bool \<times> rootptr option \<Rightarrow> search_outcome" where
  "outcome (found, None) = NoCrossingFound"
| "outcome (found, Some r) = (if found then Converged else NotConverged)"

text \<open>
  Modelled from the spec: the diagnostic listing, "one line per root: velocity, growth
  rate, frequency", "sorted by velocity then by real part".
\<close>

definition print_sorted_roots :: "flutter_solver \<Rightarrow> flutter_solver" where
  "print_sorted_roots fs =
     fs\<lparr> fs_output := fs_output fs @
            map (\<lambda>r. (fr_V r, Re (fr_root r), Im (fr_root r)))
              (sort_key (\<lambda>r. (fr_V r, Re (fr_root r))) (fs_history fs)) \<rparr>"

text \<open>Products of complex vectors and matrices (rows as lists).\<close>

definition dot :: "cvec \<Rightarrow> cvec \<Rightarrow> complex" where
  "dot y x = sum_list (map2 (*) y x)"

definition mat_vec :: "cmat \<Rightarrow> cvec \<Rightarrow> cvec" where
  "mat_vec A x = map (\<lambda>row. dot row x) A"

text \<open>
  Modelled from the spec: the eigenvalue sensitivity identity of section 4.5,
  \<open>d\<lambda>/dp = [y\<^sup>T (dA/dp - \<lambda> dB/dp) x] / [y\<^sup>T B x]\<close>.
\<close>

definition eigenvalue_sensitivity ::
  "complex \<Rightarrow> cvec \<Rightarrow> cvec \<Rightarrow> cmat \<Rightarrow> cmat \<times> cmat \<Rightarrow> complex" where
  "eigenvalue_sensitivity lam x y B dAB =
     (case dAB of (dA, dB) \<Rightarrow>
        dot y (mat_vec (map2 (\<lambda>ra rb. map2 (\<lambda>a b. a - lam * b) ra rb) dA dB) x)
          / dot y (mat_vec B x))"

text \<open>
  Modelled from the spec: the derivative of the tracked eigenvalue of the root \<open>r\<close>
  with respect to the parameter \<open>p\<close>, the operators and their derivatives taken at the
  root's velocity.
\<close>

definition dlambda ::
  "env \<Rightarrow> flutter_solver \<Rightarrow> discipline \<Rightarrow> heap \<Rightarrow> flutter_root \<Rightarrow> pref \<Rightarrow> complex" where
  "dlambda env fs d h r p =
     (let h' = set_value (fs_velocity fs) (fr_V r) h
      in eigenvalue_sensitivity (fr_root r) (fr_eig_vec_right r) (fr_eig_vec_left r)
           (snd (reduced_operators env (fs_basis fs) d h'))
           (reduced_sensitivity env (fs_basis fs) d h' p))"

text \<open>
  Modelled from the spec: \<^verbatim>\<open>calculate_sensitivity(root, params, i)\<close>. It "fails with
  StaleRootError if invoked without a previously converged FlutterRoot" (the pointer is
  not a root of the history) "or if \<open>p\<close> is not among the parameters the root was
  computed with respect to" (read as: the parameters registered with the discipline of
  the attached assembly). Otherwise it stores
  \<open>dV*/dp = - [\<partial>(real \<lambda>)/\<partial>p] / [\<partial>(real \<lambda>)/\<partial>V]\<close> in the root, the derivative with
  respect to the velocity taken analytically, the velocity being a parameter. Where
  that derivative is zero the quotient is the one of the reals of HOL (zero) and stands
  for no value of the program; the properties below assume it is not.
\<close>

definition calculate_sensitivity ::
  "env \<Rightarrow> discipline \<Rightarrow> heap \<Rightarrow> rootptr \<Rightarrow> pref list \<Rightarrow> nat \<Rightarrow> flutter_solver
     \<Rightarrow> error + flutter_solver" where
  "calculate_sensitivity env d h rp params i fs =
     (if \<not> rp < length (fs_history fs) then Inl StaleRootError
      else if \<not> i < length params then Inl StaleRootError
      else if params ! i \<notin> d_parameters d then Inl StaleRootError
      else
        let r = fs_history fs ! rp;
            sens = - Re (dlambda env fs d h r (params ! i))
                     / Re (dlambda env fs d h r (fs_velocity fs))
        in Inr (fs\<lparr> fs_history := (fs_history fs)[rp := r\<lparr> fr_V_sens := sens \<rparr>] \<rparr>))"

section \<open>The flutter search of the driver\<close>

text \<open>
  Lines 298--304 of \<^verbatim>\<open>solve\<close>: the root pointer is reset, the flutter solver cleared,
  and the output file set on rank 0.
\<close>

definition solve_clear :: "env \<Rightarrow> analysis \<Rightarrow> analysis" where
  "solve_clear env a =
     a\<lparr> flutter_root := None,
        flutter_solver :=
          (if comm_rank env = 0
           then set_output_file ''flutter_output.txt'' (clear (flutter_solver a))
           else clear (flutter_solver a)) \<rparr>"

text \<open>
  Lines 307--363: \<^verbatim>\<open>(*_velocity) = 0.\<close>, the modal eigenproblem solve,
  \<^verbatim>\<open>nconv = min(n_converged, n_requested)\<close>, the assertion on the size of an existing
  basis, and the loop that copies eigenvector \<open>i\<close> into \<^verbatim>\<open>_basis[i]\<close>, prints the
  real part and writes the mode when asked to.
\<close>

definition solve_modal :: "env \<Rightarrow> bool \<Rightarrow> analysis \<Rightarrow> error + analysis" where
  "solve_modal env if_write_output a =
     (let h = set_value (p_velocity a) 0 (heap a);
          pairs = modal_eigenpairs env (discipline a) h;
          nconv = min (length pairs) (n_requested_eigenvalues a)
      in if basis a \<noteq> [] \<and> length (basis a) \<noteq> nconv then Inl AssertionFailed
         else Inr (a\<lparr> heap := h,
                      basis := map (\<lambda>(re, im, v). v) (take nconv pairs),
                      out := out a @ concat (map (\<lambda>(re, im, v). [Num re, Endl]) (take nconv pairs)),
                      written := written a @
                        (if if_write_output
                         then map (\<lambda>i. (''modes.exo'', i + 1)) [0..<nconv] else []) \<rparr>))"

text \<open>
  The evaluation the flutter solver performs at a velocity \<open>v\<close> through the attached
  fluid-structure assembly: the velocity parameter is given the value \<open>v\<close>, the
  operators are reduced on the basis, and the tracked eigenpair is computed. The value
  the solver leaves in the velocity parameter after a search is not recorded in the
  heap: \<^verbatim>\<open>solve\<close> overwrites it before it reads any parameter, and the sensitivity
  computation sets the velocity of the root itself.
\<close>

definition eigenpair_at ::
  "env \<Rightarrow> vec list \<Rightarrow> discipline \<Rightarrow> heap \<Rightarrow> pref \<Rightarrow> real \<Rightarrow> complex \<times> cvec \<times> cvec" where
  "eigenpair_at env bs d h vel v =
     tracked_eigenpair env (reduced_operators env bs d (set_value vel v h))"

text \<open>\<^verbatim>\<open>p->member\<close> for a pointer into the root history.\<close>

definition deref :: "flutter_solver \<Rightarrow> rootptr option \<Rightarrow> error + flutter_root" where
  "deref fs p =
     (case p of
        None \<Rightarrow> Inl NullDereference
      | Some i \<Rightarrow> if i < length (fs_history fs) then Inr (fs_history fs ! i)
                  else Inl NullDereference)"

text \<open>
  Lines 365--396: the solver is initialised with the range \<open>[1000, 1200]\<close> in 10
  divisions and the basis; the search runs; the roots are printed; the assertion
  \<^verbatim>\<open>libmesh_assert(sol.first)\<close> follows; the pointer is stored, the mode plotted when
  asked to, and \<^verbatim>\<open>_flutter_root->V\<close> returned.
\<close>

definition solve_flutter ::
  "env \<Rightarrow> bool \<Rightarrow> real \<Rightarrow> nat \<Rightarrow> analysis \<Rightarrow> error + analysis \<times> real" where
  "solve_flutter env if_write_output tol max_bisection_iters a =
     (let fs1 = initialize (p_velocity a) 1000 1200 10 (basis a)
                  (attach_assembly (flutter_solver a))
      in case analyze_and_find_critical_root_without_tracking
                (eigenpair_at env (basis a) (discipline a) (heap a) (p_velocity a))
                tol max_bisection_iters fs1 of
           (fs2, sol) \<Rightarrow>
             (let fs3 = clear_assembly_object (print_sorted_roots fs2)
              in if \<not> fst sol then Inl AssertionFailed
                 else
                   (case deref fs3 (snd sol) of
                      Inl e \<Rightarrow> Inl e
                    | Inr r \<Rightarrow>
                        Inr (a\<lparr> flutter_solver := fs3,
                                flutter_root := snd sol,
                                written := written a @
                                  (if if_write_output
                                   then [(''structural_flutter_mode.exo'', 1)] else []) \<rparr>,
                             fr_V r))))"

text \<open>\<^verbatim>\<open>solve(if_write_output, tol, max_bisection_iters)\<close>, lines 291--397.\<close>

definition solve :: "env \<Rightarrow> bool \<Rightarrow> real \<Rightarrow> nat \<Rightarrow> analysis \<Rightarrow> error + analysis \<times> real" where
  "solve env if_write_output tol max_bisection_iters a =
     (if \<not> initialized a then Inl AssertionFailed
      else
        case solve_modal env if_write_output (solve_clear env a) of
          Inl e \<Rightarrow> Inl e
        | Inr a' \<Rightarrow> solve_flutter env if_write_output tol max_bisection_iters a')"

section \<open>The sensitivity of the flutter velocity\<close>

text \<open>
  Modelled from the spec: \<^verbatim>\<open>add_parameter\<close> and \<^verbatim>\<open>remove_parameter\<close> of the
  discipline's base class (\<^verbatim>\<open>base/physics_discipline_base.h\<close>) are not among the
  sources. The parameters registered with the discipline form a set; the first adds a
  parameter to it and the second takes it out.
\<close>

definition add_parameter :: "pref \<Rightarrow> discipline \<Rightarrow> discipline" where
  "add_parameter p d = d\<lparr> d_parameters := insert p (d_parameters d) \<rparr>"

definition remove_parameter :: "pref \<Rightarrow> discipline \<Rightarrow> discipline" where
  "remove_parameter p d = d\<lparr> d_parameters := d_parameters d - {p} \<rparr>"

text \<open>
  \<^verbatim>\<open>sensitivity_solve(p)\<close>, lines 403--432. The two assertions come first; the velocity
  and \<open>p\<close> are registered; the solver computes the sensitivity of the root
  \<^verbatim>\<open>*_flutter_root\<close> for the vector \<^verbatim>\<open>params\<close> of the one entry \<open>p\<close>, at index 0;
  \<open>p\<close> and the velocity are removed and \<^verbatim>\<open>_flutter_root->V_sens\<close> is returned.
\<close>

definition sensitivity_solve :: "env \<Rightarrow> pref \<Rightarrow> analysis \<Rightarrow> error + analysis \<times> real" where
  "sensitivity_solve env p a =
     (if \<not> initialized a then Inl AssertionFailed
      else
        case flutter_root a of
          None \<Rightarrow> Inl AssertionFailed
        | Some rp \<Rightarrow>
            (let d1 = add_parameter p (add_parameter (p_velocity a) (discipline a));
                 params = [p]
             in case calculate_sensitivity env d1 (heap a) rp params 0
                       (attach_assembly (flutter_solver a)) of
                  Inl e \<Rightarrow> Inl e
                | Inr fs2 \<Rightarrow>
                    (let fs3 = clear_assembly_object fs2;
                         d2 = remove_parameter (p_velocity a) (remove_parameter p d1)
                     in case deref fs3 (Some rp) of
                          Inl e \<Rightarrow> Inl e
                        | Inr r \<Rightarrow>
                            Inr (a\<lparr> discipline := d2, flutter_solver := fs3 \<rparr>,
                                 fr_V_sens r))))"

section \<open>The states of an initialised analysis\<close>

text \<open>
  The states the driver can be in: after \<^verbatim>\<open>init\<close> on a newly constructed object, and
  after any operation that returns, in any order. A caller may assign a value to a
  Parameter through a pointer it holds (\<^verbatim>\<open>get_parameter\<close> hands pointers out). A
  failed assertion ends the run: no state follows it.
\<close>

inductive reachable :: "env \<Rightarrow> analysis \<Rightarrow> bool" for env :: env where
  after_init:
    "init etype if_nonlin BeamPistonTheoryFlutterAnalysis = Inr a \<Longrightarrow> reachable env a"
| after_get_parameter:
    "reachable env a \<Longrightarrow> get_parameter nm a = (a', r) \<Longrightarrow> reachable env a'"
| after_assignment:
    "reachable env a \<Longrightarrow> reachable env (a\<lparr> heap := set_value p x (heap a) \<rparr>)"
| after_solve:
    "reachable env a \<Longrightarrow> solve env if_write_output tol max_bisection_iters a = Inr (a', v)
       \<Longrightarrow> reachable env a'"
| after_sensitivity_solve:
    "reachable env a \<Longrightarrow> sensitivity_solve env p a = Inr (a', v) \<Longrightarrow> reachable env a'"

section \<open>An example environment\<close>

text \<open>
  Collaborators for concrete runs: four converged structural modes; one tracked
  aeroelastic mode with eigenvalue \<open>V - 1110\<close> (\<open>A(V) = (V - 1110)\<close>, \<open>B = 1\<close>), which
  crosses zero inside the driver's range \<open>[1000, 1200]\<close>; \<open>dA/dV = 1\<close>, \<open>dA/dp = 2\<close>
  for every other parameter, \<open>dB/dp = 0\<close>.
\<close>

definition example_env :: env where
  "example_env =
     \<lparr> comm_rank = 0,
       modal_eigenpairs = (\<lambda>d h. [(1, 0, [1]), (2, 0, [1]), (3, 0, [1]), (4, 0, [1])]),
       reduced_operators = (\<lambda>bs d h. ([[Complex (param_value (h 7) - 1110) 0]], [[1]])),
       reduced_sensitivity = (\<lambda>bs d h p. (if p = 7 then [[1]] else [[2]], [[0]])),
       tracked_eigenpair = (\<lambda>AB. (hd (hd (fst AB)) / hd (hd (snd AB)), [1], [1])) \<rparr>"

text \<open>The same with a tracked mode that stays stable: eigenvalue \<open>-1\<close> at every velocity.\<close>

definition stable_env :: env where
  "stable_env = example_env\<lparr> reduced_operators := (\<lambda>bs d h. ([[- 1]], [[1]])) \<rparr>"

text \<open>
  The same with the operator pair \<open>A(V) = (30 V - 80)\<close>, \<open>B = 1\<close>: the growth rate
  of the tracked mode is increasing and continuous and crosses zero once, at
  \<open>V = 8/3\<close>. The mode is evaluated without a basis, the other parameters being
  those of a newly constructed analysis.
\<close>

definition steep_env :: env where
  "steep_env =
     example_env\<lparr> reduced_operators :=
       (\<lambda>bs d h. ([[Complex (30 * param_value (h 7) - 80) 0]], [[1]])) \<rparr>"

definition steep_mode :: "real \<Rightarrow> complex \<times> cvec \<times> cvec" where
  "steep_mode =
     eigenpair_at steep_env [] (discipline BeamPistonTheoryFlutterAnalysis)
       (heap BeamPistonTheoryFlutterAnalysis) 7"

text \<open>The analysis after construction and \<^verbatim>\<open>init\<close>.\<close>

definition initial_analysis :: analysis where
  "initial_analysis =
     (case init 0 False BeamPistonTheoryFlutterAnalysis of Inr a \<Rightarrow> a
      | Inl e \<Rightarrow> BeamPistonTheoryFlutterAnalysis)"

text \<open>
  The analysis after a flutter search in the example environment, with tolerance 1 and
  at most 5 bisection iterations.
\<close>

definition solved_analysis :: analysis where
  "solved_analysis =
     (case solve example_env False 1 5 initial_analysis of Inr (a, v) \<Rightarrow> a
      | Inl e \<Rightarrow> initial_analysis)"

section \<open>Basic facts\<close>

lemma param_name_set_value [simp]: "param_name (set_value p x h q) = param_name (h q)"
  by (simp add: set_value_def)

lemma set_value_twice [simp]: "set_value p x (set_value p y h) = set_value p x h"
  by (simp add: set_value_def fun_eq_iff)

lemma fr_V_root_at [simp]: "fr_V (root_at eig v) = v"
  by (simp add: root_at_def split: prod.splits)

lemma Re_root_at: "Re (fr_root (root_at eig v)) = growth eig v"
  by (simp add: growth_def)

lemma initial_analysis_eq: 
 "init 0 False BeamPistonTheoryFlutterAnalysis = Inr initial_analysis"
  by (simp add: initial_analysis_def init_def BeamPistonTheoryFlutterAnalysis_def)

lemma ia_sens: "params_for_sensitivity initial_analysis = [4, 5, 1, 2]"
  by (simp add: initial_analysis_def init_def BeamPistonTheoryFlutterAnalysis_def)

lemma ia_names: "map (\<lambda>q. param_name (heap initial_analysis q)) [1,2,3,4,5,6,7,8,9,10] 
   = [''thy'', ''thz'', ''rho'', ''E'', ''nu'', ''zero'', ''V'', ''mach'', ''rho'', ''gamma'']"
  by (simp add: initial_analysis_def init_def BeamPistonTheoryFlutterAnalysis_def new_parameter_def)

section \<open>Properties of the parameter lookup\<close>

lemma get_parameter_loop_result:
  "get_parameter_loop h nm ps rf =
     (if filter (\<lambda>q. nm = param_name (h q)) ps = [] then rf
      else (Some (last (filter (\<lambda>q. nm = param_name (h q)) ps)), True))"
  by (induction ps arbitrary: rf) auto

lemma last_filter_in:
  "filter P ps \<noteq> [] \<Longrightarrow> last (filter P ps) \<in> set ps \<and> P (last (filter P ps))"
  using last_in_set[of "filter P ps"] by auto

lemma print_valid_names_concat:
  "print_valid_names h ps = concat (map (\<lambda>q. [Str ''   '', Str (param_name (h q)), Endl]) ps)"
  by (induction ps) auto

lemma get_parameter_frame:
  "get_parameter nm a = (a', r) \<Longrightarrow> \<exists>xs. a' = a\<lparr> out := xs \<rparr>"
  by (cases "get_parameter_loop (heap a) nm (params_for_sensitivity a) (None, False)")
     (auto simp: get_parameter_def split: if_splits intro: exI[of _ "out a"])

text \<open>
  Claim C10. \<^verbatim>\<open>get_parameter(nm)\<close> leaves the sensitivity vector and the parameters
  as they are. When a parameter of the vector has the name \<open>nm\<close>, it returns a
  pointer to such a parameter, the last one in the vector, and prints nothing; when none
  has, it returns \<^verbatim>\<open>nullptr\<close> after printing the name asked for and the valid names.
\<close>

theorem get_parameter_returns_last_match:
  assumes "get_parameter nm a = (a', r)"
  shows "params_for_sensitivity a' = params_for_sensitivity a \<and> heap a' = heap a \<and>
    ((\<exists>q \<in> set (params_for_sensitivity a). param_name (heap a q) = nm) \<longrightarrow>
       (\<exists>q. r = Some q \<and> q \<in> set (params_for_sensitivity a) \<and> param_name (heap a q) = nm
          \<and> q = last (filter (\<lambda>q. nm = param_name (heap a q)) (params_for_sensitivity a)))
       \<and> a' = a) \<and>
    ((\<forall>q \<in> set (params_for_sensitivity a). param_name (heap a q) \<noteq> nm) \<longrightarrow>
       r = None \<and>
       a' = a\<lparr> out := out a @
                [Endl, Str ''Parameter not found by name: '', Str nm, Endl,
                 Str ''Valid names are: '', Endl]
                @ concat (map (\<lambda>q. [Str ''   '', Str (param_name (heap a q)), Endl])
                            (params_for_sensitivity a))
                @ [Endl] \<rparr>)"
proof (cases "filter (\<lambda>q. nm = param_name (heap a q)) (params_for_sensitivity a) = []")
  case True
  then have none: "\<forall>q \<in> set (params_for_sensitivity a). param_name (heap a q) \<noteq> nm"
    by (auto simp: filter_empty_conv)
  from True assms have "r = None" and
    "a' = a\<lparr> out := out a @
                [Endl, Str ''Parameter not found by name: '', Str nm, Endl,
                 Str ''Valid names are: '', Endl]
                @ print_valid_names (heap a) (params_for_sensitivity a)
                @ [Endl] \<rparr>"
    by (auto simp: get_parameter_def get_parameter_loop_result)
  with none show ?thesis
    by (auto simp: print_valid_names_concat)
next
  case False
  define q where "q = last (filter (\<lambda>q. nm = param_name (heap a q)) (params_for_sensitivity a))"
  from last_filter_in[OF False]
  have mem: "q \<in> set (params_for_sensitivity a)" and nm: "param_name (heap a q) = nm"
    unfolding q_def by auto
  from False assms have "r = Some q" and "a' = a"
    unfolding q_def by (auto simp: get_parameter_def get_parameter_loop_result)
  with mem nm show ?thesis
    unfolding q_def by blast
qed

section \<open>Frame properties and the invariant of the reachable states\<close>

lemma solve_frame:
  assumes "solve env w tol m a = Inr (a', v)"
  shows "initialized a'" "params_for_sensitivity a' = params_for_sensitivity a"
    "p_velocity a' = p_velocity a" "discipline a' = discipline a"
    "heap a' = set_value (p_velocity a) 0 (heap a)"
    "\<exists>rp. flutter_root a' = Some rp \<and> rp < length (fs_history (flutter_solver a'))"
  using assms
  by (auto simp: solve_def solve_modal_def solve_flutter_def solve_clear_def Let_def deref_def
           split: if_splits sum.splits prod.splits option.splits)

lemma solve_frame_eq:
  assumes "solve env w tol m a = Inr (a', v)"
  shows "a' = a\<lparr> flutter_root := flutter_root a', heap := set_value (p_velocity a) 0 (heap a),
                  basis := basis a', flutter_solver := flutter_solver a', out := out a',
                  written := written a' \<rparr>"
  using assms
  by (auto simp: solve_def solve_modal_def solve_flutter_def solve_clear_def Let_def deref_def
           split: if_splits sum.splits prod.splits option.splits)

lemma calculate_sensitivity_result:
  assumes "calculate_sensitivity env d h rp ps i fs = Inr fs'"
  shows "rp < length (fs_history fs) \<and> i < length ps \<and> ps ! i \<in> d_parameters d \<and>
         fs' = fs\<lparr> fs_history := (fs_history fs)[rp := (fs_history fs ! rp)\<lparr> fr_V_sens :=
                  - Re (dlambda env fs d h (fs_history fs ! rp) (ps ! i))
                    / Re (dlambda env fs d h (fs_history fs ! rp) (fs_velocity fs)) \<rparr>] \<rparr>"
  using assms
  by (simp add: calculate_sensitivity_def Let_def split: if_splits)

lemma sensitivity_solve_frame:
  assumes "sensitivity_solve env p a = Inr (a', v)"
  shows "initialized a'" "params_for_sensitivity a' = params_for_sensitivity a"
    "p_velocity a' = p_velocity a" "heap a' = heap a"
    "flutter_root a' = flutter_root a"
    "length (fs_history (flutter_solver a')) = length (fs_history (flutter_solver a))"
    "discipline a' = (discipline a)\<lparr> d_parameters := d_parameters (discipline a) - {p} - {p_velocity a} \<rparr>"
  using assms
  by (auto simp: insert_Diff_if sensitivity_solve_def calculate_sensitivity_def Let_def deref_def
        add_parameter_def remove_parameter_def attach_assembly_def clear_assembly_object_def
           split: if_splits sum.splits prod.splits option.splits)

lemma sensitivity_solve_frame_eq:
  assumes "sensitivity_solve env p a = Inr (a', v)"
  shows "a' = a\<lparr> discipline := discipline a', flutter_solver := flutter_solver a' \<rparr>"
  using assms
  by (auto simp: sensitivity_solve_def Let_def 
           split: if_splits sum.splits prod.splits option.splits)

lemma analyze_frame:
  "analyze_and_find_critical_root_without_tracking eig tol m fs = (fs', sol) \<Longrightarrow>
     fs_basis fs' = fs_basis fs \<and> fs_velocity fs' = fs_velocity fs \<and> fs_root fs' = snd sol"
  by (auto simp: analyze_and_find_critical_root_without_tracking_def Let_def
           split: option.splits prod.splits)

lemma reachable_members:
  "reachable env a \<Longrightarrow>
     p_thy a = 1 \<and> p_thz a = 2 \<and> p_rho a = 3 \<and> p_E a = 4 \<and> p_nu a = 5 \<and> p_zero a = 6 \<and>
     p_velocity a = 7 \<and> p_mach a = 8 \<and> p_rho_air a = 9 \<and> p_gamma_air a = 10"
proof (induction rule: reachable.induct)
  case (after_init etype if_nonlin a)
  then show ?case
    by (auto simp: init_def BeamPistonTheoryFlutterAnalysis_def)
next
  case (after_get_parameter a nm a' r)
  from get_parameter_frame[OF after_get_parameter.hyps(2)] after_get_parameter.IH
  show ?case by auto
next
  case (after_assignment a p x)
  then show ?case by simp
next
  case (after_solve a w tol m a' v)
  from after_solve.IH show ?case
    by (subst solve_frame_eq[OF after_solve.hyps(2)], simp)+
next
  case (after_sensitivity_solve a p a' v)
  from after_sensitivity_solve.IH show ?case
    by (subst sensitivity_solve_frame_eq[OF after_sensitivity_solve.hyps(2)], simp)+
qed

lemma reachable_invariant:
  "reachable env a \<Longrightarrow>
     initialized a \<and> params_for_sensitivity a = [4, 5, 1, 2] \<and> p_velocity a = 7 \<and>
     map (\<lambda>q. param_name (heap a q)) [1, 2, 3, 4, 5, 6, 7, 8, 9, 10] =
       [''thy'', ''thz'', ''rho'', ''E'', ''nu'', ''zero'', ''V'', ''mach'', ''rho'', ''gamma''] \<and>
     d_parameters (discipline a) = {} \<and>
     (\<forall>rp. flutter_root a = Some rp \<longrightarrow> rp < length (fs_history (flutter_solver a)))"
proof (induction rule: reachable.induct)
  case (after_init etype if_nonlin a)
  then show ?case
    by (auto simp: init_def BeamPistonTheoryFlutterAnalysis_def new_parameter_def)
next
  case (after_get_parameter a nm a' r)
  from get_parameter_frame[OF after_get_parameter.hyps(2)] after_get_parameter.IH
  show ?case by auto
next
  case (after_assignment a p x)
  then show ?case by simp
next
  case (after_solve a w tol m a' v)
  from solve_frame[OF after_solve.hyps(2)] after_solve.IH
  show ?case by auto
next
  case (after_sensitivity_solve a p a' v)
  from sensitivity_solve_frame[OF after_sensitivity_solve.hyps(2)] after_sensitivity_solve.IH
  show ?case by auto
qed

lemma reachable_initial: "reachable env initial_analysis"
  by (rule reachable.after_init[OF initial_analysis_eq])

text \<open>
  Claim C6, as amended. In every state of an initialised analysis the sensitivity
  vector is \<^verbatim>\<open>_E, _nu, _thy, _thz\<close> and the names of its parameters are pairwise
  different: a name matches at most one parameter of the vector. (The claim extends this
  to all ten parameters, where it fails: two of them bear the same name.)
\<close>

theorem sensitivity_names_unique:
  assumes "reachable env a"
  shows "params_for_sensitivity a = [p_E a, p_nu a, p_thy a, p_thz a] \<and>
         distinct (map (\<lambda>q. param_name (heap a q)) (params_for_sensitivity a)) \<and>
         (\<forall>nm. length (filter (\<lambda>q. nm = param_name (heap a q)) (params_for_sensitivity a)) \<le> 1)"
proof -
  from reachable_invariant[OF assms] reachable_members[OF assms]
  have s: "params_for_sensitivity a = [p_E a, p_nu a, p_thy a, p_thz a]"
    and n: "param_name (heap a (p_E a)) = ''E''" "param_name (heap a (p_nu a)) = ''nu''"
      "param_name (heap a (p_thy a)) = ''thy''" "param_name (heap a (p_thz a)) = ''thz''"
    by auto
  show ?thesis
    unfolding s by (auto simp: n)
qed

section \<open>The sweep and the bisection\<close>

lemma sweep_velocities_length [simp]: "length (sweep_velocities lo hi n) = Suc n"
  by (simp add: sweep_velocities_def)

lemma sweep_velocities_nth:
  "k \<le> n \<Longrightarrow> sweep_velocities lo hi n ! k = sample_velocity lo hi n k"
proof -
  assume "k \<le> n"
  then have "k < length [0..<Suc n]" by simp
  then have "map (sample_velocity lo hi n) [0..<Suc n] ! k = sample_velocity lo hi n ([0..<Suc n] ! k)"
    by (rule nth_map)
  also have "[0..<Suc n] ! k = k" using \<open>k \<le> n\<close> by (metis add_0 less_Suc_eq_le nth_upt)
  finally show ?thesis by (simp add: sweep_velocities_def)
qed





lemma find_crossing_None:
  "\<forall>r \<in> set rs. Re (fr_root r) < 0 \<Longrightarrow> find_crossing rs = None"
  by (induction rs rule: find_crossing.induct) auto

lemma find_crossing_negative:
  assumes "\<forall>v \<in> set vs. growth eig v < 0"
  shows "find_crossing (map (root_at eig) vs) = None"
  using assms by (intro find_crossing_None) (auto simp: Re_root_at)

lemma find_crossing_Some:
  "find_crossing rs = Some k \<Longrightarrow>
     Suc k < length rs \<and> Re (fr_root (rs ! k)) \<le> 0 \<and> 0 < Re (fr_root (rs ! Suc k))"
  by (induction rs arbitrary: k rule: find_crossing.induct) (auto split: if_splits)



lemma initial_bracket_sweep:
  assumes "find_crossing (map (root_at eig) (sweep_velocities lo hi n)) = Some k"
  shows "k < n"
    and "b_lo (initial_bracket (map (root_at eig) (sweep_velocities lo hi n)) k) = sample_velocity lo hi n k"
    and "b_hi (initial_bracket (map (root_at eig) (sweep_velocities lo hi n)) k) = sample_velocity lo hi n (Suc k)"
    and "b_root (initial_bracket (map (root_at eig) (sweep_velocities lo hi n)) k)
           = root_at eig (sample_velocity lo hi n (Suc k))"
    and "growth eig (sample_velocity lo hi n k) \<le> 0"
    and "0 < growth eig (sample_velocity lo hi n (Suc k))"
proof -
  let ?rs = "map (root_at eig) (sweep_velocities lo hi n)"
  from find_crossing_Some[OF assms]
  have k': "Suc k < length ?rs" and s: "Re (fr_root (?rs ! k)) \<le> 0" "0 < Re (fr_root (?rs ! Suc k))"
    by blast+
  from k' have k: "Suc k < Suc n" by simp
  from k show "k < n" by simp
  from k have n1: "map (root_at eig) (sweep_velocities lo hi n) ! k = root_at eig (sample_velocity lo hi n k)"
    by (simp add: sweep_velocities_nth)
  from k have n2: "map (root_at eig) (sweep_velocities lo hi n) ! Suc k
                   = root_at eig (sample_velocity lo hi n (Suc k))"
    by (simp add: sweep_velocities_nth)
  show "b_lo (initial_bracket (map (root_at eig) (sweep_velocities lo hi n)) k) = sample_velocity lo hi n k"
    by (simp add: initial_bracket_def n1)
  show "b_hi (initial_bracket (map (root_at eig) (sweep_velocities lo hi n)) k) = sample_velocity lo hi n (Suc k)"
    by (simp add: initial_bracket_def n2)
  show "b_root (initial_bracket (map (root_at eig) (sweep_velocities lo hi n)) k)
           = root_at eig (sample_velocity lo hi n (Suc k))"
    by (simp add: initial_bracket_def n2)
  from s show "growth eig (sample_velocity lo hi n k) \<le> 0"
    "0 < growth eig (sample_velocity lo hi n (Suc k))"
    by (simp_all add: n1 n2 Re_root_at)
qed

lemma analyze_no_crossing:
  assumes "find_crossing (map (root_at eig) (sweep_velocities (fs_V_lo fs) (fs_V_hi fs) (fs_n_div fs))) = None"
  shows "analyze_and_find_critical_root_without_tracking eig tol m fs =
           (fs\<lparr> fs_history := fs_history fs @
                    map (root_at eig) (sweep_velocities (fs_V_lo fs) (fs_V_hi fs) (fs_n_div fs)),
                  fs_root := None \<rparr>, (False, None))"
  using assms by (simp add: analyze_and_find_critical_root_without_tracking_def)

lemma analyze_crossing:
  assumes "find_crossing (map (root_at eig) (sweep_velocities (fs_V_lo fs) (fs_V_hi fs) (fs_n_div fs))) = Some k"
    and "bisection eig tol m
           (initial_bracket (map (root_at eig) (sweep_velocities (fs_V_lo fs) (fs_V_hi fs) (fs_n_div fs))) k)
         = (c, bf, tr)"
  shows "analyze_and_find_critical_root_without_tracking eig tol m fs =
           (fs\<lparr> fs_history := fs_history fs @
                    map (root_at eig) (sweep_velocities (fs_V_lo fs) (fs_V_hi fs) (fs_n_div fs)) @
                    map b_root tr,
                  fs_root := Some (if tr = [] then length (fs_history fs) + Suc k
                                   else length (fs_history fs) + fs_n_div fs + length tr) \<rparr>,
            (c, Some (if tr = [] then length (fs_history fs) + Suc k
                      else length (fs_history fs) + fs_n_div fs + length tr)))"
  using assms
  by (simp add: analyze_and_find_critical_root_without_tracking_def Let_def sweep_velocities_def)

lemma bisect_step_invariant:
  "growth eig (b_lo b) \<le> 0 \<and> 0 < growth eig (b_hi b) \<Longrightarrow>
   growth eig (b_lo (bisect_step eig b)) \<le> 0 \<and> 0 < growth eig (b_hi (bisect_step eig b))"
  by (auto simp: bisect_step_def Let_def Re_root_at)




lemma bisection_final:
  "bisection eig tol m b = (c, bf, tr) \<Longrightarrow>
     bf = last (b # tr) \<and> length tr \<le> m \<and> b_iters bf = b_iters b + length tr \<and>
     (c \<longleftrightarrow> tr \<noteq> [] \<and> bisect_done tol bf) \<and> (\<not> c \<longrightarrow> length tr = m)"
proof (induction m arbitrary: b c bf tr)
  case 0
  then show ?case by auto
next
  case (Suc m)
  let ?b = "bisect_step eig b"
  have it: "b_iters ?b = Suc (b_iters b)" by (simp add: bisect_step_def Let_def)
  show ?case
  proof (cases "bisect_done tol ?b")
    case True
    with Suc.prems it show ?thesis by (auto simp: Let_def)
  next
    case False
    obtain c' bf' tr' where rec: "bisection eig tol m ?b = (c', bf', tr')"
      by (cases "bisection eig tol m ?b") auto
    with False Suc.prems have eq: "c = c'" "bf = bf'" "tr = ?b # tr'" by (simp_all add: Let_def)
    from Suc.IH[OF rec] it False show ?thesis unfolding eq by auto
  qed
qed

lemma bisection_trace:
  assumes "bisection eig tol m b = (c, bf, tr)" and "P b"
    and "\<And>b. P b \<Longrightarrow> P (bisect_step eig b)"
  shows "\<forall>b' \<in> set tr. P b' \<and> (\<exists>b0. P b0 \<and> b' = bisect_step eig b0)"
  using assms(1,2)
proof (induction m arbitrary: b c bf tr)
  case 0
  then show ?case by simp
next
  case (Suc m)
  let ?b = "bisect_step eig b"
  have P: "P ?b" using Suc.prems(2) by (rule assms(3))
  show ?case
  proof (cases "bisect_done tol ?b")
    case True
    with Suc.prems(1) have "tr = [?b]" by (auto simp: Let_def)
    with P Suc.prems(2) show ?thesis by auto
  next
    case False
    obtain c' bf' tr' where rec: "bisection eig tol m ?b = (c', bf', tr')"
      by (cases "bisection eig tol m ?b") auto
    with False Suc.prems(1) have "tr = ?b # tr'" by (simp add: Let_def)
    with Suc.IH[OF rec P] P Suc.prems(2) show ?thesis by auto
  qed
qed

text \<open>
  Claim C2. When the refinement starts from the bracket the sweep declares, the bracket
  after every iteration (and the final one) has the tracked real part \<open>\<le> 0\<close> at its
  low end and \<open>> 0\<close> at its high end.
\<close>

theorem bisection_keeps_bracket:
  assumes "find_crossing (map (root_at eig) (sweep_velocities lo hi n)) = Some k"
    and "bisection eig tol m (initial_bracket (map (root_at eig) (sweep_velocities lo hi n)) k)
           = (c, bf, tr)"
  shows "(\<forall>b \<in> set tr. growth eig (b_lo b) \<le> 0 \<and> 0 < growth eig (b_hi b)) \<and>
         growth eig (b_lo bf) \<le> 0 \<and> 0 < growth eig (b_hi bf)"
proof -
  let ?b0 = "initial_bracket (map (root_at eig) (sweep_velocities lo hi n)) k"
  from initial_bracket_sweep[OF assms(1)]
  have b0: "growth eig (b_lo ?b0) \<le> 0 \<and> 0 < growth eig (b_hi ?b0)" by simp
  from bisection_trace[OF assms(2), of "\<lambda>b. growth eig (b_lo b) \<le> 0 \<and> 0 < growth eig (b_hi b)",
      OF b0 bisect_step_invariant]
  have tr: "\<forall>b \<in> set tr. growth eig (b_lo b) \<le> 0 \<and> 0 < growth eig (b_hi b)" by blast
  from bisection_final[OF assms(2)] have "bf = last (?b0 # tr)" by simp
  then have "bf = ?b0 \<or> bf \<in> set tr" by (cases "tr = []") auto
  with b0 tr show ?thesis by blast
qed







section \<open>Properties of the flutter search\<close>

text \<open>
  Claim C3, as amended. When the tracked real part is negative at each of the 11
  samples of the driver's range, the solver returns \<open>found = false\<close> with a null root,
  which reads as NoCrossingFound, and keeps no current root; \<^verbatim>\<open>solve\<close> then fails
  its assertion \<^verbatim>\<open>libmesh_assert(sol.first)\<close>: it returns no velocity and stores no
  root. (The claim says the program does not crash.)
\<close>

theorem no_crossing_fails_assertion:
  assumes "initialized a" and "solve_modal env w (solve_clear env a) = Inr a1"
    and "eig = eigenpair_at env (basis a1) (discipline a1) (heap a1) (p_velocity a1)"
    and "fs = initialize (p_velocity a1) 1000 1200 10 (basis a1) (attach_assembly (flutter_solver a1))"
    and "\<forall>v \<in> set (sweep_velocities 1000 1200 10). growth eig v < 0"
  shows "snd (analyze_and_find_critical_root_without_tracking eig tol m fs) = (False, None) \<and>
         outcome (snd (analyze_and_find_critical_root_without_tracking eig tol m fs)) = NoCrossingFound \<and>
         fs_root (fst (analyze_and_find_critical_root_without_tracking eig tol m fs)) = None \<and>
         solve env w tol m a = Inl AssertionFailed"
proof -
  have r: "fs_V_lo fs = 1000" "fs_V_hi fs = 1200" "fs_n_div fs = 10"
    by (simp_all add: assms(4) initialize_def)
  from find_crossing_negative[OF assms(5)]
  have "find_crossing (map (root_at eig) (sweep_velocities (fs_V_lo fs) (fs_V_hi fs) (fs_n_div fs))) = None"
    by (simp add: r)
  note an = analyze_no_crossing[OF this, of tol m]
  have "solve_flutter env w tol m a1 = Inl AssertionFailed"
    using an unfolding assms(3,4) by (simp add: solve_flutter_def Let_def)
  with assms(1,2) have "solve env w tol m a = Inl AssertionFailed"
    by (simp add: solve_def)
  with an show ?thesis by simp
qed


text \<open>
  Claim C8. When \<^verbatim>\<open>solve\<close> returns, the basis it stores and hands to the flutter
  solver consists of the modes of the structural eigenproblem solved with the velocity
  parameter at 0, and the same result is obtained whatever value the velocity parameter
  held before the call.
\<close>

theorem solve_basis_at_zero_velocity:
  assumes "solve env w tol m a = Inr (a', v)"
  shows "basis a' = map (\<lambda>(re, im, v). v)
                     (take (n_requested_eigenvalues a)
                        (modal_eigenpairs env (discipline a) (set_value (p_velocity a) 0 (heap a)))) \<and>
         fs_basis (flutter_solver a') = basis a' \<and>
         (\<forall>x. solve env w tol m (a\<lparr> heap := set_value (p_velocity a) x (heap a) \<rparr>) = Inr (a', v))"
proof -
  have indep: "\<And>x. solve env w tol m (a\<lparr> heap := set_value (p_velocity a) x (heap a) \<rparr>)
                  = solve env w tol m a"
    by (simp add: solve_def solve_clear_def solve_modal_def Let_def)
  from assms obtain a1 where
    m: "solve_modal env w (solve_clear env a) = Inr a1" and
    f: "solve_flutter env w tol m a1 = Inr (a', v)"
    by (auto simp: solve_def split: if_splits sum.splits)
  from m have b1: "basis a1 = map (\<lambda>(re, im, v). v)
                     (take (n_requested_eigenvalues a)
                        (modal_eigenpairs env (discipline a) (set_value (p_velocity a) 0 (heap a))))"
    by (auto simp: solve_modal_def solve_clear_def Let_def min_def take_all split: if_splits)
  obtain fs2 sol where an: "analyze_and_find_critical_root_without_tracking
                (eigenpair_at env (basis a1) (discipline a1) (heap a1) (p_velocity a1))
                tol m (initialize (p_velocity a1) 1000 1200 10 (basis a1)
                  (attach_assembly (flutter_solver a1))) = (fs2, sol)"
    by (rule prod.exhaust)
  from analyze_frame[OF an] have "fs_basis fs2 = basis a1" by (simp add: initialize_def)
  with f an have "basis a' = basis a1 \<and> fs_basis (flutter_solver a') = basis a1"
    by (auto simp: solve_flutter_def Let_def print_sorted_roots_def clear_assembly_object_def
             split: if_splits sum.splits)
  with b1 indep assms show ?thesis by simp
qed

section \<open>Properties of the sensitivity computation\<close>


text \<open>
  Claim C4. When \<^verbatim>\<open>sensitivity_solve(p)\<close> returns \<open>s\<close> for the root \<open>r\<close> the
  analysis points to, the pointer is unchanged, the root it points to afterwards is
  \<open>r\<close> with \<open>s\<close> in its field \<^verbatim>\<open>V_sens\<close>, and
  \<open>s = - [\<partial>(real \<lambda>)/\<partial>p] / [\<partial>(real \<lambda>)/\<partial>V]\<close>, both derivatives given by the
  eigenvalue sensitivity identity at the root. The derivative with respect to the
  velocity is taken to be non-zero.
\<close>

theorem sensitivity_solve_returns_V_sens:
  assumes "sensitivity_solve env p a = Inr (a', s)"
    and "deref (flutter_solver a) (flutter_root a) = Inr r"
    and "Re (dlambda env (attach_assembly (flutter_solver a))
               (add_parameter p (add_parameter (p_velocity a) (discipline a)))
               (heap a) r (fs_velocity (flutter_solver a))) \<noteq> 0"
  shows "flutter_root a' = flutter_root a \<and>
         deref (flutter_solver a') (flutter_root a') = Inr (r\<lparr> fr_V_sens := s \<rparr>) \<and>
         s = - Re (dlambda env (attach_assembly (flutter_solver a))
                     (add_parameter p (add_parameter (p_velocity a) (discipline a)))
                     (heap a) r p)
               / Re (dlambda env (attach_assembly (flutter_solver a))
                       (add_parameter p (add_parameter (p_velocity a) (discipline a)))
                       (heap a) r (fs_velocity (flutter_solver a)))"
proof -
  let ?fs1 = "attach_assembly (flutter_solver a)"
  let ?d1 = "add_parameter p (add_parameter (p_velocity a) (discipline a))"
  from assms(1) obtain rp where rp: "flutter_root a = Some rp" and ini: "initialized a"
    by (auto simp: sensitivity_solve_def split: if_splits option.splits)
  from assms(1) rp ini obtain fs2 where
    cs: "calculate_sensitivity env ?d1 (heap a) rp [p] 0 ?fs1 = Inr fs2"
    by (auto simp: sensitivity_solve_def Let_def split: sum.splits)
  from assms(1) rp ini cs obtain r' where
    dr: "deref (clear_assembly_object fs2) (Some rp) = Inr r'"
    and a': "a' = a\<lparr> discipline := remove_parameter (p_velocity a) (remove_parameter p ?d1),
                      flutter_solver := clear_assembly_object fs2 \<rparr>"
    and s: "s = fr_V_sens r'"
    by (auto simp: sensitivity_solve_def Let_def split: sum.splits)
  let ?r = "fs_history (flutter_solver a) ! rp"
  let ?s = "- Re (dlambda env ?fs1 ?d1 (heap a) ?r p)
                 / Re (dlambda env ?fs1 ?d1 (heap a) ?r (fs_velocity (flutter_solver a)))"
  have h1: "fs_history ?fs1 = fs_history (flutter_solver a)"
    "fs_velocity ?fs1 = fs_velocity (flutter_solver a)"
    by (simp_all add: attach_assembly_def)
  from calculate_sensitivity_result[OF cs]
  have lt: "rp < length (fs_history (flutter_solver a))"
    and fs2: "fs2 = ?fs1\<lparr> fs_history := (fs_history ?fs1)[rp := (fs_history ?fs1 ! rp)\<lparr> fr_V_sens :=
                  - Re (dlambda env ?fs1 ?d1 (heap a) (fs_history ?fs1 ! rp) p)
                    / Re (dlambda env ?fs1 ?d1 (heap a) (fs_history ?fs1 ! rp) (fs_velocity ?fs1)) \<rparr>] \<rparr>"
    by (simp_all add: h1)
  from fs2 have hist: "fs_history (clear_assembly_object fs2)
      = (fs_history (flutter_solver a))[rp := ?r\<lparr> fr_V_sens := ?s \<rparr>]"
    by (simp add: clear_assembly_object_def h1)
  from dr lt have r': "r' = ?r\<lparr> fr_V_sens := ?s \<rparr>"
    by (simp add: deref_def hist)
  from assms(2) rp lt have r: "r = ?r" by (simp add: deref_def)
  from s r' have sv: "s = ?s" by simp
  from rp a' dr r' sv r show ?thesis by simp
qed

lemma sensitivity_solve_succeeds:
  assumes "initialized a" "flutter_root a = Some rp" "rp < length (fs_history (flutter_solver a))"
  shows "\<exists>a' s. sensitivity_solve env p a = Inr (a', s)"
  using assms
  by (simp add: sensitivity_solve_def calculate_sensitivity_def Let_def deref_def
        attach_assembly_def clear_assembly_object_def add_parameter_def)


section \<open>Concrete runs\<close>

subsection \<open>The parameters of the initialised analysis\<close>

text \<open>
  Claim C10 at the initialised analysis: \<open>''thz''\<close> is found at address 2 and
  nothing is printed; \<open>''rho''\<close> names no parameter of the sensitivity vector and
  gives \<^verbatim>\<open>nullptr\<close>.
\<close>

theorem get_parameter_returns_last_match_witness: "get_parameter ''thz'' initial_analysis = (initial_analysis, Some 2)
   \<and> snd (get_parameter ''rho'' initial_analysis) = None"
proof -
  obtain a1 r1 where g1: "get_parameter ''thz'' initial_analysis = (a1, r1)" by force
  obtain a2 r2 where g2: "get_parameter ''rho'' initial_analysis = (a2, r2)" by force
  have n: "param_name (heap initial_analysis 4) = ''E''" "param_name (heap initial_analysis 5) = ''nu''"
     "param_name (heap initial_analysis (Suc 0)) = ''thy''" "param_name (heap initial_analysis 2) = ''thz''"
    using ia_names by simp_all
  from get_parameter_returns_last_match[OF g1] have "a1 = initial_analysis \<and> r1 = Some 2"
    by (simp add: ia_sens n)
  moreover from get_parameter_returns_last_match[OF g2] have "r2 = None"
    by (simp add: ia_sens n)
  ultimately show ?thesis using g1 g2 by simp
qed

text \<open>
  Claim C6 as stated fails: among the ten parameters \<^verbatim>\<open>init\<close> creates, \<^verbatim>\<open>_rho\<close>
  and \<^verbatim>\<open>_rho_air\<close> are different parameters with the same name \<open>''rho''\<close>.
\<close>

theorem all_names_unique_counterexample:
  "\<not> distinct (map (\<lambda>q. param_name (heap initial_analysis q))
       [p_thy initial_analysis, p_thz initial_analysis, p_rho initial_analysis,
        p_E initial_analysis, p_nu initial_analysis, p_zero initial_analysis,
        p_velocity initial_analysis, p_mach initial_analysis, p_rho_air initial_analysis,
        p_gamma_air initial_analysis])
   \<and> p_rho initial_analysis \<noteq> p_rho_air initial_analysis
   \<and> param_name (heap initial_analysis (p_rho initial_analysis)) = ''rho''
   \<and> param_name (heap initial_analysis (p_rho_air initial_analysis)) = ''rho''"
  by (simp add: initial_analysis_def init_def BeamPistonTheoryFlutterAnalysis_def new_parameter_def)

text \<open>Claim C6 as amended, at the initialised analysis.\<close>

theorem sensitivity_names_unique_witness:
  "params_for_sensitivity initial_analysis = [4, 5, 1, 2] \<and>
   map (\<lambda>q. param_name (heap initial_analysis q)) (params_for_sensitivity initial_analysis)
     = [''E'', ''nu'', ''thy'', ''thz''] \<and>
   distinct (map (\<lambda>q. param_name (heap initial_analysis q)) (params_for_sensitivity initial_analysis))"
  using sensitivity_names_unique[OF reachable_initial[of example_env]]
  by (simp add: initial_analysis_def init_def BeamPistonTheoryFlutterAnalysis_def new_parameter_def)

subsection \<open>A search that finds the crossing\<close>

lemma sweep_1000: "sweep_velocities 1000 1200 10 = [1000, 1020, 1040, 1060, 1080, 1100, 1120, 1140, 1160, 1180, 1200]"
  by (simp add: sweep_velocities_def sample_velocity_def upt_rec)

lemma example_root: "root_at (eigenpair_at example_env bs d h 7) v = 
   \<lparr> fr_V = v, fr_root = Complex (v - 1110) 0, fr_eig_vec_right = [1], fr_eig_vec_left = [1], fr_V_sens = 0 \<rparr>"
  by (simp add: root_at_def eigenpair_at_def example_env_def set_value_def complex_eq_iff)


lemma example_crossing:
  "find_crossing (map (root_at (eigenpair_at example_env bs d h 7)) (sweep_velocities 1000 1200 10)) = Some 5"
  by (simp add: sweep_1000 example_root)

lemma example_bisection:
  "bisection (eigenpair_at example_env bs d h 7) 1 (Suc m)
     (initial_bracket (map (root_at (eigenpair_at example_env bs d h 7)) (sweep_velocities 1000 1200 10)) 5)
   = (True, \<lparr> b_lo = 1110, b_hi = 1120, b_root = root_at (eigenpair_at example_env bs d h 7) 1110, b_iters = 1 \<rparr>,
       [\<lparr> b_lo = 1110, b_hi = 1120, b_root = root_at (eigenpair_at example_env bs d h 7) 1110, b_iters = 1 \<rparr>])"
  by (simp add: sweep_1000 initial_bracket_def bisect_step_def bisect_done_def example_root Let_def)

lemma example_search:
  "analyze_and_find_critical_root_without_tracking (eigenpair_at example_env bs d h 7) 1 (Suc m)
     (initialize 7 1000 1200 10 bs fs)
   = ((initialize 7 1000 1200 10 bs fs)
        \<lparr> fs_history := fs_history fs @
            map (root_at (eigenpair_at example_env bs d h 7)) (sweep_velocities 1000 1200 10) @
            [root_at (eigenpair_at example_env bs d h 7) 1110],
          fs_root := Some (length (fs_history fs) + 11) \<rparr>,
      (True, Some (length (fs_history fs) + 11)))"
proof -
  let ?fs = "initialize 7 1000 1200 10 bs fs"
  have r: "fs_V_lo ?fs = 1000" "fs_V_hi ?fs = 1200" "fs_n_div ?fs = 10" "fs_history ?fs = fs_history fs"
    by (simp_all add: initialize_def)
  have c: "find_crossing (map (root_at (eigenpair_at example_env bs d h 7))
             (sweep_velocities (fs_V_lo ?fs) (fs_V_hi ?fs) (fs_n_div ?fs))) = Some 5"
    unfolding r by (rule example_crossing)
  have b: "bisection (eigenpair_at example_env bs d h 7) 1 (Suc m)
     (initial_bracket (map (root_at (eigenpair_at example_env bs d h 7))
        (sweep_velocities (fs_V_lo ?fs) (fs_V_hi ?fs) (fs_n_div ?fs))) 5)
   = (True, \<lparr> b_lo = 1110, b_hi = 1120, b_root = root_at (eigenpair_at example_env bs d h 7) 1110, b_iters = 1 \<rparr>,
       [\<lparr> b_lo = 1110, b_hi = 1120, b_root = root_at (eigenpair_at example_env bs d h 7) 1110, b_iters = 1 \<rparr>])"
    unfolding r by (rule example_bisection)
  show ?thesis
    unfolding analyze_crossing[OF c b] r by simp
qed


lemma example_deref:
  "deref (clear_assembly_object (print_sorted_roots
       (fs\<lparr> fs_history := hs @ map f (sweep_velocities 1000 1200 10) @ [r] \<rparr>)))
     (Some (length hs + 11)) = Inr r"
  by (simp add: deref_def clear_assembly_object_def print_sorted_roots_def nth_append)

lemma example_solve_flutter:
  assumes "p_velocity a = 7"
  shows "solve_flutter example_env False 1 (Suc m) a =
    Inr (a\<lparr> flutter_solver := clear_assembly_object (print_sorted_roots
               ((initialize 7 1000 1200 10 (basis a) (attach_assembly (flutter_solver a)))
                 \<lparr> fs_history := fs_history (flutter_solver a) @
                     map (root_at (eigenpair_at example_env (basis a) (discipline a) (heap a) 7))
                       (sweep_velocities 1000 1200 10) @
                     [root_at (eigenpair_at example_env (basis a) (discipline a) (heap a) 7) 1110],
                    fs_root := Some (length (fs_history (flutter_solver a)) + 11) \<rparr>)),
             flutter_root := Some (length (fs_history (flutter_solver a)) + 11) \<rparr>, 1110)"
proof -
  have h: "fs_history (attach_assembly (flutter_solver a)) = fs_history (flutter_solver a)"
    by (simp add: attach_assembly_def)
  have i: "initialize 7 1000 1200 10 (basis a) (attach_assembly (flutter_solver a))
        \<lparr> fs_history := fs_history (flutter_solver a) @
                     map (root_at (eigenpair_at example_env (basis a) (discipline a) (heap a) 7))
                       (sweep_velocities 1000 1200 10) @
                     [root_at (eigenpair_at example_env (basis a) (discipline a) (heap a) 7) 1110],
                    fs_root := Some (length (fs_history (flutter_solver a)) + 11) \<rparr>
     = (initialize 7 1000 1200 10 (basis a) (attach_assembly (flutter_solver a))
        \<lparr> fs_root := Some (length (fs_history (flutter_solver a)) + 11) \<rparr>)
        \<lparr> fs_history := fs_history (flutter_solver a) @
                     map (root_at (eigenpair_at example_env (basis a) (discipline a) (heap a) 7))
                       (sweep_velocities 1000 1200 10) @
                     [root_at (eigenpair_at example_env (basis a) (discipline a) (heap a) 7) 1110] \<rparr>"
    by simp
  show ?thesis
    unfolding solve_flutter_def assms Let_def example_search h
    by (simp only: prod.case fst_conv snd_conv i example_deref) (simp add: example_root)
qed

lemma example_solve_modal:
  "solve_modal example_env False (solve_clear example_env initial_analysis) =
     Inr ((solve_clear example_env initial_analysis)
       \<lparr> heap := set_value 7 0 (heap initial_analysis),
         basis := [[1], [1], [1]],
         out := [Num 1, Endl, Num 2, Endl, Num 3, Endl] \<rparr>)"
  by (simp add: solve_modal_def solve_clear_def initial_analysis_def init_def
        BeamPistonTheoryFlutterAnalysis_def example_env_def Let_def)

lemma example_solve_explicit:
  "solve example_env False 1 5 initial_analysis =
     Inr ((solve_clear example_env initial_analysis)
       \<lparr> heap := set_value 7 0 (heap initial_analysis),
         basis := [[1], [1], [1]],
         out := [Num 1, Endl, Num 2, Endl, Num 3, Endl],
         flutter_solver := clear_assembly_object (print_sorted_roots
               ((initialize 7 1000 1200 10 [[1], [1], [1]]
                   (attach_assembly (flutter_solver (solve_clear example_env initial_analysis))))
                 \<lparr> fs_history :=
                     map (root_at (eigenpair_at example_env [[1], [1], [1]]
                            (discipline initial_analysis) (set_value 7 0 (heap initial_analysis)) 7))
                       (sweep_velocities 1000 1200 10) @
                     [root_at (eigenpair_at example_env [[1], [1], [1]]
                            (discipline initial_analysis) (set_value 7 0 (heap initial_analysis)) 7) 1110],
                    fs_root := Some 11 \<rparr>)),
         flutter_root := Some 11 \<rparr>, 1110)"
proof -
  have i: "initialized initial_analysis"
    by (simp add: initial_analysis_def init_def BeamPistonTheoryFlutterAnalysis_def)
  let ?a1 = "(solve_clear example_env initial_analysis)
       \<lparr> heap := set_value 7 0 (heap initial_analysis),
         basis := [[1], [1], [1]],
         out := [Num 1, Endl, Num 2, Endl, Num 3, Endl] \<rparr>"
  have v: "p_velocity ?a1 = 7"
    by (simp add: solve_clear_def initial_analysis_def init_def BeamPistonTheoryFlutterAnalysis_def)
  have h: "fs_history (flutter_solver (solve_clear example_env initial_analysis)) = []"
    by (simp add: solve_clear_def clear_def set_output_file_def)
  have d: "discipline ?a1 = discipline initial_analysis" by (simp add: solve_clear_def)
  have "solve example_env False 1 5 initial_analysis = solve_flutter example_env False 1 (Suc 4) ?a1"
    unfolding solve_def example_solve_modal using i by simp
  also note example_solve_flutter[OF v, of 4]
  finally show ?thesis by (simp add: h d)
qed

lemma example_solve:
  "solve example_env False 1 5 initial_analysis = Inr (solved_analysis, 1110)"
  by (simp add: solved_analysis_def example_solve_explicit)

lemma solved_reachable: "reachable example_env solved_analysis"
  by (rule reachable.after_solve[OF reachable_initial example_solve])

lemma solved_root:
  "flutter_root solved_analysis = Some 11"
  "deref (flutter_solver solved_analysis) (Some 11) =
     Inr \<lparr> fr_V = 1110, fr_root = 0, fr_eig_vec_right = [1], fr_eig_vec_left = [1], fr_V_sens = 0 \<rparr>"
  "fs_velocity (flutter_solver solved_analysis) = 7"
  "basis solved_analysis = [[1], [1], [1]]"
  "fs_basis (flutter_solver solved_analysis) = [[1], [1], [1]]"
  by (simp_all add: solved_analysis_def example_solve_explicit example_root deref_def nth_append
        clear_assembly_object_def print_sorted_roots_def initialize_def zero_complex.code)

lemma example_dlambda:
  "fr_eig_vec_right r = [1] \<Longrightarrow> fr_eig_vec_left r = [1] \<Longrightarrow>
     dlambda example_env fs d h r p = (if p = 7 then 1 else 2)"
  by (simp add: dlambda_def eigenvalue_sensitivity_def example_env_def dot_def mat_vec_def Let_def)


text \<open>
  Claim C8 in the example environment: the basis consists of the first three structural
  modes, and a velocity of 555 left in the parameter before the call changes nothing.
\<close>

theorem solve_basis_at_zero_velocity_witness:
  "basis solved_analysis = [[1], [1], [1]] \<and>
   fs_basis (flutter_solver solved_analysis) = [[1], [1], [1]] \<and>
   solve example_env False 1 5 (initial_analysis\<lparr> heap := set_value 7 555 (heap initial_analysis) \<rparr>)
     = Inr (solved_analysis, 1110)"
proof -
  have v: "p_velocity initial_analysis = 7"
    by (simp add: initial_analysis_def init_def BeamPistonTheoryFlutterAnalysis_def)
  from solve_basis_at_zero_velocity[OF example_solve]
  have "solve example_env False 1 5 (initial_analysis\<lparr> heap := set_value 7 555 (heap initial_analysis) \<rparr>)
     = Inr (solved_analysis, 1110)"
    unfolding v by blast
  then show ?thesis by (simp add: solved_root)
qed


text \<open>
  Claim C4 in the example environment, after the search: the sensitivity with respect
  to \<^verbatim>\<open>_E\<close> is \<open>- 2 / 1\<close>.
\<close>

theorem sensitivity_solve_returns_V_sens_witness:
  "\<exists>a'. sensitivity_solve example_env 4 solved_analysis = Inr (a', - 2)"
proof -
  from sensitivity_solve_succeeds[of solved_analysis 11 example_env 4]
    reachable_invariant[OF solved_reachable] solved_root(1)
  obtain a' s where ss: "sensitivity_solve example_env 4 solved_analysis = Inr (a', s)"
    by auto
  have d: "Re (dlambda example_env (attach_assembly (flutter_solver solved_analysis))
               (add_parameter 4 (add_parameter (p_velocity solved_analysis) (discipline solved_analysis)))
               (heap solved_analysis)
               \<lparr> fr_V = 1110, fr_root = 0, fr_eig_vec_right = [1], fr_eig_vec_left = [1], fr_V_sens = 0 \<rparr>
               (fs_velocity (flutter_solver solved_analysis))) \<noteq> 0"
    by (simp add: example_dlambda solved_root)
  from sensitivity_solve_returns_V_sens[OF ss _ d]
  have "s = - 2"
    by (simp add: solved_root example_dlambda)
  with ss show ?thesis by blast
qed




subsection \<open>A search without a crossing\<close>

lemma stable_growth: "growth (eigenpair_at stable_env bs d h vel) v = - 1"
  by (simp add: growth_def root_at_def eigenpair_at_def stable_env_def example_env_def)

lemma stable_solve_modal:
  "solve_modal stable_env False (solve_clear stable_env initial_analysis) =
     Inr ((solve_clear stable_env initial_analysis)
       \<lparr> heap := set_value 7 0 (heap initial_analysis),
         basis := [[1], [1], [1]],
         out := [Num 1, Endl, Num 2, Endl, Num 3, Endl] \<rparr>)"
  by (simp add: solve_modal_def solve_clear_def initial_analysis_def init_def
        BeamPistonTheoryFlutterAnalysis_def example_env_def stable_env_def Let_def)

lemma stable_search:
  "analyze_and_find_critical_root_without_tracking (eigenpair_at stable_env bs d h vel) tol m
     (initialize vel' 1000 1200 10 bs' fs)
   = ((initialize vel' 1000 1200 10 bs' fs)\<lparr> fs_history := fs_history fs @
          map (root_at (eigenpair_at stable_env bs d h vel)) (sweep_velocities 1000 1200 10),
        fs_root := None \<rparr>, (False, None))"
proof -
  have "find_crossing (map (root_at (eigenpair_at stable_env bs d h vel))
          (sweep_velocities 1000 1200 10)) = None"
    by (rule find_crossing_negative) (simp add: stable_growth)
  then show ?thesis
    using analyze_no_crossing[of "eigenpair_at stable_env bs d h vel" "initialize vel' 1000 1200 10 bs' fs" tol m]
    by (simp add: initialize_def)
qed

text \<open>
  Claim C3 as stated fails: with a tracked real part of \<open>- 1\<close> at every sample,
  \<^verbatim>\<open>solve\<close> ends in a failed assertion.
\<close>

theorem solve_no_crossing_counterexample:
  "list_all (\<lambda>v. growth (eigenpair_at stable_env [[1], [1], [1]] (discipline initial_analysis)
                     (set_value 7 0 (heap initial_analysis)) 7) v < 0)
     (sweep_velocities 1000 1200 10) \<and>
   solve stable_env False 1 5 initial_analysis = Inl AssertionFailed"
proof -
  have i: "initialized initial_analysis"
    by (simp add: initial_analysis_def init_def BeamPistonTheoryFlutterAnalysis_def)
  have "solve stable_env False 1 5 initial_analysis = Inl AssertionFailed"
    unfolding solve_def stable_solve_modal using i
    by (simp add: solve_flutter_def stable_search)
  then show ?thesis by (simp add: stable_growth list_all_iff)
qed

text \<open>Claim C3 as amended, in the stable environment.\<close>

theorem no_crossing_fails_assertion_witness:
  "solve stable_env False 1 5 initial_analysis = Inl AssertionFailed \<and>
   outcome (snd (analyze_and_find_critical_root_without_tracking
      (eigenpair_at stable_env [[1], [1], [1]] (discipline initial_analysis)
                     (set_value 7 0 (heap initial_analysis)) 7) 1 5
      (initialize 7 1000 1200 10 [[1], [1], [1]]
         (attach_assembly (flutter_solver (solve_clear stable_env initial_analysis))))))
     = NoCrossingFound"
proof -
  have i: "initialized initial_analysis"
    by (simp add: initial_analysis_def init_def BeamPistonTheoryFlutterAnalysis_def)
  let ?a1 = "(solve_clear stable_env initial_analysis)
       \<lparr> heap := set_value 7 0 (heap initial_analysis),
         basis := [[1], [1], [1]],
         out := [Num 1, Endl, Num 2, Endl, Num 3, Endl] \<rparr>"
  have f: "basis ?a1 = [[1], [1], [1]]" "discipline ?a1 = discipline initial_analysis"
    "heap ?a1 = set_value 7 0 (heap initial_analysis)" "p_velocity ?a1 = 7"
    "flutter_solver ?a1 = flutter_solver (solve_clear stable_env initial_analysis)"
    by (simp_all add: solve_clear_def initial_analysis_def init_def BeamPistonTheoryFlutterAnalysis_def)
  have neg: "\<forall>v \<in> set (sweep_velocities 1000 1200 10).
     growth (eigenpair_at stable_env (basis ?a1) (discipline ?a1) (heap ?a1) (p_velocity ?a1)) v < 0"
    by (simp add: stable_growth)
  from no_crossing_fails_assertion[OF i stable_solve_modal refl refl neg, of 1 5]
  show ?thesis unfolding f by simp
qed

subsection \<open>A steep mode\<close>

lemma bisection_numeral:
  "bisection eig tol (numeral k) b =
     (let b' = bisect_step eig b
      in if bisect_done tol b' then (True, b', [b'])
         else (case bisection eig tol (pred_numeral k) b' of (c, bf, tr) \<Rightarrow> (c, bf, b' # tr)))"
  by (simp only: numeral_eq_Suc bisection.simps)

lemma steep_growth: "growth steep_mode v = 30 * v - 80"
  by (simp add: growth_def root_at_def steep_mode_def eigenpair_at_def steep_env_def
        example_env_def set_value_def)


lemma steep_sweep: "sweep_velocities 1 4 (Suc 0) = [1, 4]"
  by (simp add: sweep_velocities_def sample_velocity_def upt_rec)


text \<open>
  Claim C2 for the steep mode and a tolerance of \<open>1/100\<close>: three iterations run, and
  each of the three brackets has the sign change.
\<close>

theorem bisection_keeps_bracket_witness:
  "find_crossing (map (root_at steep_mode) (sweep_velocities 1 4 1)) = Some 0 \<and>
   fst (bisection steep_mode (1 / 100) 3
          (initial_bracket (map (root_at steep_mode) (sweep_velocities 1 4 1)) 0)) = False \<and>
   map (\<lambda>b. (b_lo b, b_hi b)) (snd (snd (bisection steep_mode (1 / 100) 3
          (initial_bracket (map (root_at steep_mode) (sweep_velocities 1 4 1)) 0))))
     = [(5 / 2, 4), (5 / 2, 13 / 4), (5 / 2, 23 / 8)] \<and>
   growth steep_mode (5 / 2) \<le> 0 \<and> 0 < growth steep_mode (23 / 8)"
proof -
  have re: "\<And>v. Re (fr_root (root_at steep_mode v)) = 30 * v - 80"
    using steep_growth by (simp add: growth_def)
  have k: "find_crossing (map (root_at steep_mode) (sweep_velocities 1 4 1)) = Some 0"
    by (simp add: steep_sweep re)
  let ?b1 = "\<lparr> b_lo = 5 / 2, b_hi = 4, b_root = root_at steep_mode (5 / 2), b_iters = 1 \<rparr>"
  let ?b2 = "\<lparr> b_lo = 5 / 2, b_hi = 13 / 4, b_root = root_at steep_mode (13 / 4), b_iters = 2 \<rparr>"
  let ?b3 = "\<lparr> b_lo = 5 / 2, b_hi = 23 / 8, b_root = root_at steep_mode (23 / 8), b_iters = 3 \<rparr>"
  have b: "bisection steep_mode (1 / 100) 3
        (initial_bracket (map (root_at steep_mode) (sweep_velocities 1 4 1)) 0)
        = (False, ?b3, [?b1, ?b2, ?b3])"
    by (simp add: steep_sweep initial_bracket_def bisection_numeral bisect_step_def bisect_done_def
          re Let_def)
  from bisection_keeps_bracket[OF k b]
  have "growth steep_mode (5 / 2) \<le> 0 \<and> 0 < growth steep_mode (23 / 8)" by simp
  with k b show ?thesis by simp
qed

end
